theory Spec2Isabelle
  imports Complex_Main
begin

section \<open>CHSRMT heat-stress engine: the session state and one evaluation cycle\<close>

text \<open>
  The program \<^verbatim>\<open>src/app.py\<close> is a Streamlit script: on every external trigger the whole
  script runs top to bottom over the session dictionary \<^verbatim>\<open>ss\<close>. The embedding follows that
  shape: the session dictionary is a record, each block of the script is a function from
  session to session, and one evaluation cycle is their composition in script order. A
  cycle is a run that passes the landing gate of lines 110--134 and is not aborted by an
  exception of the network calls of blocks 3 and 4.

  The widgets are the inputs of a cycle. The model takes what they return after the unit
  conversion of lines 350--388 and 490--499, that is, the values lines 353--388 and 511--541
  store in the session; the display calls (\<^verbatim>\<open>st.metric\<close>, \<^verbatim>\<open>st.write\<close>, the guidance
  texts) write no session key and are left out.

  Python floats are modelled as the real numbers (no rounding, no NaN, no infinities), so
  \<^verbatim>\<open>math.atan\<close>, \<^verbatim>\<open>math.sqrt\<close> and \<^verbatim>\<open>**\<close> are \<open>arctan\<close>, \<open>sqrt\<close> and \<open>powr\<close>.
  The relative-humidity widget is declared with \<^verbatim>\<open>min_value=0.0, max_value=100.0\<close>, so the
  value the baseline block reads lies in \<open>[0,100]\<close>; on that range the real functions below
  are the ones the source calls.
\<close>

subsection \<open>Data\<close>

text \<open>The environment signature: the dictionary \<^verbatim>\<open>{"db", "rh", "gt", "ws"}\<close> of lines 409.\<close>

record env_sig =
  sig_db :: real
  sig_rh :: real
  sig_gt :: real
  sig_ws :: real

text \<open>One row of the audit log (lines 740--751): every value is a string.\<close>

record log_entry =
  le_timestamp :: string
  le_location :: string
  le_db :: string
  le_rh :: string
  le_gt :: string
  le_wbgt_baseline :: string
  le_penalty_total :: string
  le_wbgt_eff :: string
  le_risk :: string
  le_chsi_scaled :: string

text \<open>
  The session dictionary, one field per key the blocks 5 to 8 read or write. A key that
  holds \<^verbatim>\<open>None\<close> or is absent is \<open>None\<close> where the source reads it with
  \<^verbatim>\<open>ss.get(key)\<close>; \<open>penalties_applied\<close>, \<open>risk_band\<close>, \<open>chsi_scaled\<close> and
  \<open>place_label\<close> are only ever read with \<^verbatim>\<open>ss.get(key, default)\<close>, so an absent key is
  that default. \<open>prev_env = None\<close> stands for the absent key and for the empty
  dictionary line 407 stores, which no signature equals. The threshold keys are written
  by block 6 before block 7 reads them in every cycle.
\<close>

record session =
  db_c :: real
  rh_pct :: real
  ws_ms :: real
  p_kpa :: real
  gt_c :: real
  wbgt_raw_c :: "real option"
  wbgt_eff_c :: "real option"
  pen_clo_c :: real
  pen_veh_c :: real
  pen_rad_c :: real
  pen_adhoc_c :: real
  total_penalty_c :: real
  audit_log :: "log_entry list"
  prev_env :: "env_sig option"
  wbgt_base_frozen :: "real option"
  penalties_applied :: bool
  twb_c :: "real option"
  wbgt_base_c :: "real option"
  wbgt_A_c :: real
  wbgt_B_c :: real
  wbgt_C_c :: real
  thr_A_c :: real
  thr_B_c :: real
  thr_C_c :: real
  risk_band :: string
  chsi_scaled :: real
  place_label :: string

text \<open>
  What the widgets hand to one run of the script, in the engine's canonical units (the
  unit conversion of blocks 2 to 4 has happened): the five environmental number inputs,
  the four penalty number inputs, whether the apply button was pressed, the
  acclimatization radio, the location label when the search block chose one, and the
  clock reading of line 741.
\<close>

record inputs =
  in_db_c :: real
  in_rh_pct :: real
  in_ws_ms :: real
  in_p_kpa :: real
  in_gt_c :: real
  in_pen_clo_c :: real
  in_pen_veh_c :: real
  in_pen_rad_c :: real
  in_pen_adhoc_c :: real
  in_apply :: bool
  in_acclimatized :: bool
  in_place_label :: "string option"
  in_now :: string

text \<open>What the apply handler shows: \<^verbatim>\<open>st.error\<close> (line 553) or \<^verbatim>\<open>st.success\<close> (line 582).\<close>

datatype report =
  NoFrozenBaseline
  | PenaltiesApplied real real

text \<open>What the end of the script shows of the audit log (lines 758--775).\<close>

record ui =
  apply_report :: "report option"
  has_log :: bool
  can_export :: bool

text \<open>The session after the defaults of lines 176--200 on an empty dictionary.\<close>

definition session_init :: session where
  "session_init =
     \<lparr> db_c = 32, rh_pct = 60, ws_ms = 1, p_kpa = 101.3, gt_c = 35,
       wbgt_raw_c = None, wbgt_eff_c = None,
       pen_clo_c = 0, pen_veh_c = 0, pen_rad_c = 0, pen_adhoc_c = 0,
       total_penalty_c = 0,
       audit_log = [],
       prev_env = None, wbgt_base_frozen = None, penalties_applied = False,
       twb_c = None, wbgt_base_c = None,
       wbgt_A_c = 29, wbgt_B_c = 32, wbgt_C_c = 35,
       thr_A_c = 29, thr_B_c = 32, thr_C_c = 35,
       risk_band = [], chsi_scaled = 0, place_label = [] \<rparr>"

subsection \<open>Block 5: the numeric estimators\<close>

text \<open>Lines 422--428, the Stull natural wet-bulb.\<close>

definition calc_twb_c :: "real \<Rightarrow> real \<Rightarrow> real" where
  "calc_twb_c db rh =
     db * arctan (0.151977 * sqrt (rh + 8.313659))
     + arctan (db + rh)
     - arctan (rh - 1.676331)
     + 0.00391838 * (rh powr 1.5) * arctan (0.023101 * rh)
     - 4.686035"

text \<open>Lines 435--436, the wind damping factor.\<close>

definition calc_f_v :: "real \<Rightarrow> real" where
  "calc_f_v ws = (let v = max ws 0.1 in 1 / (1 + 0.4 * sqrt v))"

text \<open>Line 437, the wind-corrected globe temperature.\<close>

definition calc_gt_adj :: "real \<Rightarrow> real \<Rightarrow> real \<Rightarrow> real" where
  "calc_gt_adj db gt ws = db + (gt - db) * calc_f_v ws"

text \<open>Line 442, the raw outdoor WBGT.\<close>

definition calc_wbgt_raw_c :: "real \<Rightarrow> real \<Rightarrow> real \<Rightarrow> real \<Rightarrow> real" where
  "calc_wbgt_raw_c db rh gt ws =
     0.7 * calc_twb_c db rh + 0.2 * calc_gt_adj db gt ws + 0.1 * db"

subsection \<open>The blocks of the script\<close>

text \<open>Blocks 3 and 4 as the core sees them: the canonical values stored in the session.\<close>

definition input_layer :: "inputs \<Rightarrow> session \<Rightarrow> session" where
  "input_layer i s =
     s\<lparr> db_c := in_db_c i, rh_pct := in_rh_pct i, ws_ms := in_ws_ms i,
        p_kpa := in_p_kpa i, gt_c := in_gt_c i,
        place_label := (case in_place_label i of None \<Rightarrow> place_label s | Some l \<Rightarrow> l) \<rparr>"

text \<open>Line 409, the signature of the values the session holds.\<close>

definition env_now :: "session \<Rightarrow> env_sig" where
  "env_now s = \<lparr> sig_db = db_c s, sig_rh = rh_pct s, sig_gt = gt_c s, sig_ws = ws_ms s \<rparr>"

text \<open>Lines 406--417: reset on a changed signature, then store the signature.\<close>

definition block5_reset :: "session \<Rightarrow> session" where
  "block5_reset s =
     (let s1 = (if prev_env s \<noteq> Some (env_now s)
                then s\<lparr> wbgt_base_frozen := None, penalties_applied := False,
                        total_penalty_c := 0, wbgt_eff_c := None \<rparr>
                else s)
      in s1\<lparr> prev_env := Some (env_now s) \<rparr>)"

text \<open>Lines 422--452: compute, freeze once, tie the effective value to the baseline.\<close>

definition block5_compute :: "session \<Rightarrow> session" where
  "block5_compute s =
     (let twb = calc_twb_c (db_c s) (rh_pct s);
          raw = calc_wbgt_raw_c (db_c s) (rh_pct s) (gt_c s) (ws_ms s);
          s1 = s\<lparr> twb_c := Some twb, wbgt_raw_c := Some raw, wbgt_base_c := Some raw \<rparr>;
          s2 = (if wbgt_base_frozen s1 = None then s1\<lparr> wbgt_base_frozen := Some raw \<rparr> else s1);
          s3 = (if \<not> penalties_applied s2 then s2\<lparr> wbgt_eff_c := wbgt_base_frozen s2 \<rparr> else s2)
      in s3)"

definition block5 :: "session \<Rightarrow> session" where
  "block5 s = block5_compute (block5_reset s)"

text \<open>Lines 511, 521, 531, 541: the staged penalties, in degrees Celsius.\<close>

definition penalty_widgets :: "inputs \<Rightarrow> session \<Rightarrow> session" where
  "penalty_widgets i s =
     s\<lparr> pen_clo_c := in_pen_clo_c i, pen_veh_c := in_pen_veh_c i,
        pen_rad_c := in_pen_rad_c i, pen_adhoc_c := in_pen_adhoc_c i \<rparr>"

text \<open>Lines 556--565: the four staged values, each clamped to its category.\<close>

definition clamped_penalties :: "session \<Rightarrow> real \<times> real \<times> real \<times> real" where
  "clamped_penalties s =
     (min (max (pen_clo_c s) 0) 3,
      min (max (pen_veh_c s) 0) 3,
      min (max (pen_rad_c s) 0) 5,
      min (max (pen_adhoc_c s) 0) 4)"

text \<open>Lines 551--585: the body of the apply button.\<close>

definition apply_adjustments :: "session \<Rightarrow> report option \<times> session" where
  "apply_adjustments s =
     (case wbgt_base_frozen s of
        None \<Rightarrow> (Some NoFrozenBaseline, s)
      | Some wbgt_base \<Rightarrow>
          (case clamped_penalties s of (ppe, encl, rad, ahoc) \<Rightarrow>
             (let total = min (ppe + encl + rad + ahoc) 10;
                  eff = wbgt_base + total
              in (Some (PenaltiesApplied total eff),
                  s\<lparr> total_penalty_c := total, wbgt_eff_c := Some eff,
                     penalties_applied := True \<rparr>))))"

text \<open>Line 549: the handler runs only in the run the button triggered.\<close>

definition block5b :: "inputs \<Rightarrow> session \<Rightarrow> report option \<times> session" where
  "block5b i s = (if in_apply i then apply_adjustments s else (None, s))"

text \<open>Lines 602--621: the thresholds, lowered by 2 for non-acclimatized workers.\<close>

definition thresholds :: "bool \<Rightarrow> real \<times> real \<times> real" where
  "thresholds acclimatized =
     (if acclimatized then (29, 32, 35) else (29 - 2, 32 - 2, 35 - 2))"

definition block6 :: "inputs \<Rightarrow> session \<Rightarrow> session" where
  "block6 i s =
     (case thresholds (in_acclimatized i) of (A, B, C) \<Rightarrow>
        s\<lparr> wbgt_A_c := A, wbgt_B_c := B, wbgt_C_c := C,
           thr_A_c := A, thr_B_c := B, thr_C_c := C \<rparr>)"

text \<open>The four band names of lines 660, 666, 672 and 679.\<close>

definition band_low :: string where
  "band_low = ''Low environmental heat stress''"

definition band_caution :: string where
  "band_caution = ''Heightened / Caution''"

definition band_high_strain :: string where
  "band_high_strain = ''High strain warning''"

definition band_withdrawal :: string where
  "band_withdrawal = ''Withdrawal / Stop Work''"

text \<open>Lines 659--684: the if-chain that picks the band.\<close>

definition classify_band :: "real \<Rightarrow> real \<Rightarrow> real \<Rightarrow> real \<Rightarrow> string" where
  "classify_band wbgt_eff A B C =
     (if wbgt_eff < A then band_low
      else if wbgt_eff < B then band_caution
      else if wbgt_eff < C then band_high_strain
      else band_withdrawal)"

text \<open>Lines 708--709: the surrogate index.\<close>

definition calc_chsi_scaled :: "real \<Rightarrow> real" where
  "calc_chsi_scaled wbgt_eff =
     (let chsi_raw = wbgt_eff - 25 in max 0 (min 50 ((chsi_raw / 10) * 50)))"

text \<open>Lines 649--710: nothing is classified while no effective value exists.\<close>

definition block7 :: "session \<Rightarrow> session" where
  "block7 s =
     (case wbgt_eff_c s of
        None \<Rightarrow> s
      | Some wbgt_eff \<Rightarrow>
          s\<lparr> risk_band := classify_band wbgt_eff (thr_A_c s) (thr_B_c s) (thr_C_c s),
             chsi_scaled := calc_chsi_scaled wbgt_eff \<rparr>)"

subsection \<open>Block 8: the audit log\<close>

text \<open>
  Python's fixed-point formatting \<^verbatim>\<open>f"{x:.1f}"\<close> and \<^verbatim>\<open>f"{x:.0f}"\<close>: the value is rounded to
  the given number of decimals, ties to even, and a negative value keeps its sign.
\<close>

definition round_half_even :: "real \<Rightarrow> int" where
  "round_half_even x =
     (let f = \<lfloor>x\<rfloor>; r = x - of_int f
      in if r < 1 / 2 then f
         else if 1 / 2 < r then f + 1
         else if even f then f else f + 1)"

definition digit_char :: "nat \<Rightarrow> char" where
  "digit_char n = ''0123456789'' ! (n mod 10)"

fun nat_digits :: "nat \<Rightarrow> string" where
  "nat_digits n =
     (if n < 10 then [digit_char n] else nat_digits (n div 10) @ [digit_char (n mod 10)])"

declare nat_digits.simps [simp del]

definition fmt_f :: "nat \<Rightarrow> real \<Rightarrow> string" where
  "fmt_f d x =
     (let n = nat (round_half_even (\<bar>x\<bar> * 10 ^ d));
          frac = nat_digits (n mod 10 ^ d)
      in (if x < 0 then ''-'' else [])
         @ nat_digits (n div 10 ^ d)
         @ (if d = 0 then []
            else ''.'' @ replicate (d - length frac) (CHR ''0'') @ frac))"

text \<open>Lines 740--751: the snapshot of the session, given the effective value.\<close>

definition make_log_entry :: "string \<Rightarrow> session \<Rightarrow> real \<Rightarrow> log_entry" where
  "make_log_entry now s eff =
     \<lparr> le_timestamp = now,
       le_location = place_label s,
       le_db = fmt_f 1 (db_c s),
       le_rh = fmt_f 0 (rh_pct s),
       le_gt = fmt_f 1 (gt_c s),
       le_wbgt_baseline = fmt_f 1 (case wbgt_base_c s of None \<Rightarrow> 0 | Some b \<Rightarrow> b),
       le_penalty_total = fmt_f 1 (total_penalty_c s),
       le_wbgt_eff = fmt_f 1 eff,
       le_risk = risk_band s,
       le_chsi_scaled = fmt_f 0 (chsi_scaled s) \<rparr>"

text \<open>Lines 754--755: append unless the entry repeats the last one.\<close>

definition audit_append :: "log_entry list \<Rightarrow> log_entry \<Rightarrow> log_entry list" where
  "audit_append lg e = (if lg = [] \<or> e \<noteq> last lg then lg @ [e] else lg)"

text \<open>Lines 738--755: log only while penalties are applied and an effective value exists.\<close>

definition block8_log :: "inputs \<Rightarrow> session \<Rightarrow> session" where
  "block8_log i s =
     (case wbgt_eff_c s of
        None \<Rightarrow> s
      | Some eff \<Rightarrow>
          (if penalties_applied s
           then s\<lparr> audit_log := audit_append (audit_log s) (make_log_entry (in_now i) s eff) \<rparr>
           else s))"

subsection \<open>One evaluation cycle and a session history\<close>

text \<open>
  The script from block 3 to block 8, in order; the second component is the session the
  next run starts from, the first what this run shows (lines 553, 582, 758, 759).
\<close>

definition run_cycle :: "inputs \<Rightarrow> session \<Rightarrow> ui \<times> session" where
  "run_cycle i s =
     (let s1 = input_layer i s;
          s2 = block5 s1;
          s3 = penalty_widgets i s2
      in case block5b i s3 of (rep, s4) \<Rightarrow>
           (let s5 = block6 i s4;
                s6 = block7 s5;
                s7 = block8_log i s6
            in (\<lparr> apply_report = rep,
                  has_log = (audit_log s7 \<noteq> []),
                  can_export = penalties_applied s7 \<rparr>, s7)))"

definition cycle :: "inputs \<Rightarrow> session \<Rightarrow> session" where
  "cycle i s = snd (run_cycle i s)"

definition cycle_ui :: "inputs \<Rightarrow> session \<Rightarrow> ui" where
  "cycle_ui i s = fst (run_cycle i s)"

text \<open>A session history: the runs of the script, oldest first, from the fresh session.\<close>

fun run_session :: "inputs list \<Rightarrow> session \<Rightarrow> session" where
  "run_session [] s = s"
| "run_session (i # rest) s = run_session rest (cycle i s)"

subsection \<open>Notation for the statements, and sample inputs\<close>

text \<open>
  The signature line 409 builds in a cycle with inputs \<open>i\<close>, and the raw WBGT line 442
  computes there.
\<close>
definition sig_of :: "inputs \<Rightarrow> env_sig" where
  "sig_of i = \<lparr> sig_db = in_db_c i, sig_rh = in_rh_pct i, sig_gt = in_gt_c i, sig_ws = in_ws_ms i \<rparr>"

definition raw_of :: "inputs \<Rightarrow> real" where
  "raw_of i = calc_wbgt_raw_c (in_db_c i) (in_rh_pct i) (in_gt_c i) (in_ws_ms i)"

text \<open>
  Three runs of the script used in the examples: the default environment with the four
  penalties of the heavy scenario and the apply button pressed; a later run with the
  dry-bulb changed from 32 to 33 and no button pressed; a later run with nothing changed.
\<close>

definition ex_apply :: inputs where
  "ex_apply =
     \<lparr> in_db_c = 32, in_rh_pct = 60, in_ws_ms = 1, in_p_kpa = 101.3, in_gt_c = 35,
       in_pen_clo_c = 3, in_pen_veh_c = 2, in_pen_rad_c = 4, in_pen_adhoc_c = 4,
       in_apply = True, in_acclimatized = True, in_place_label = None,
       in_now = ''2025-07-01 12:00:00'' \<rparr>"

definition ex_change :: inputs where
  "ex_change = ex_apply\<lparr> in_db_c := 33, in_apply := False, in_now := ''2025-07-01 12:00:05'' \<rparr>"

definition ex_rerun :: inputs where
  "ex_rerun = ex_apply\<lparr> in_apply := False, in_now := ''2025-07-01 12:00:05'' \<rparr>"

text \<open>
  Two sessions that hold a frozen baseline, with every staged penalty above its ceiling
  and with every staged penalty negative; and two log rows that differ in the timestamp
  only.
\<close>

definition ex_over :: session where
  "ex_over = session_init\<lparr> wbgt_base_frozen := Some 28.9, pen_clo_c := 3.5, pen_veh_c := 4,
     pen_rad_c := 7, pen_adhoc_c := 4.5 \<rparr>"

definition ex_under :: session where
  "ex_under = session_init\<lparr> wbgt_base_frozen := Some 28.9, pen_clo_c := - 1, pen_veh_c := - 0.5,
     pen_rad_c := - 2, pen_adhoc_c := - 3 \<rparr>"

definition ex_entry :: log_entry where
  "ex_entry =
     \<lparr> le_timestamp = ''2025-07-01 12:00:00'', le_location = ''Dubai, Dubai, AE'',
       le_db = ''32.0'', le_rh = ''60'', le_gt = ''35.0'', le_wbgt_baseline = ''28.9'',
       le_penalty_total = ''10.0'', le_wbgt_eff = ''38.9'',
       le_risk = ''Withdrawal / Stop Work'', le_chsi_scaled = ''50'' \<rparr>"

definition ex_entry_later :: log_entry where
  "ex_entry_later = ex_entry\<lparr> le_timestamp := ''2025-07-01 12:00:05'' \<rparr>"

section \<open>Properties\<close>

subsection \<open>What each block does to the fields of the freeze state machine\<close>

lemma cycle_unfold:
  "cycle i s =
     block8_log i (block7 (block6 i (snd (block5b i (penalty_widgets i (block5 (input_layer i s)))))))"
  by (simp add: cycle_def run_cycle_def Let_def split: prod.splits)

lemma cycle_ui_unfold:
  "cycle_ui i s =
     \<lparr> apply_report = fst (block5b i (penalty_widgets i (block5 (input_layer i s)))),
       has_log = (audit_log (cycle i s) \<noteq> []),
       can_export = penalties_applied (cycle i s) \<rparr>"
  by (simp add: cycle_ui_def cycle_def run_cycle_def Let_def split: prod.splits)

lemma input_layer_simps:
  "prev_env (input_layer i s) = prev_env s"
  "wbgt_base_frozen (input_layer i s) = wbgt_base_frozen s"
  "penalties_applied (input_layer i s) = penalties_applied s"
  "total_penalty_c (input_layer i s) = total_penalty_c s"
  "audit_log (input_layer i s) = audit_log s"
  "env_now (input_layer i s) = sig_of i"
  "calc_wbgt_raw_c (db_c (input_layer i s)) (rh_pct (input_layer i s))
     (gt_c (input_layer i s)) (ws_ms (input_layer i s)) = raw_of i"
  by (simp_all add: input_layer_def env_now_def sig_of_def raw_of_def)

lemma block5_simps:
  "wbgt_base_frozen (block5 s) =
     (if prev_env s = Some (env_now s) \<and> wbgt_base_frozen s \<noteq> None then wbgt_base_frozen s
      else Some (calc_wbgt_raw_c (db_c s) (rh_pct s) (gt_c s) (ws_ms s)))"
  "penalties_applied (block5 s) = (penalties_applied s \<and> prev_env s = Some (env_now s))"
  "total_penalty_c (block5 s) = (if prev_env s = Some (env_now s) then total_penalty_c s else 0)"
  "audit_log (block5 s) = audit_log s"
  "prev_env (block5 s) = Some (env_now s)"
  "wbgt_raw_c (block5 s) = Some (calc_wbgt_raw_c (db_c s) (rh_pct s) (gt_c s) (ws_ms s))"
  by (auto simp add: block5_def block5_compute_def block5_reset_def Let_def)

lemma penalty_widgets_simps:
  "wbgt_base_frozen (penalty_widgets i s) = wbgt_base_frozen s"
  "penalties_applied (penalty_widgets i s) = penalties_applied s"
  "total_penalty_c (penalty_widgets i s) = total_penalty_c s"
  "audit_log (penalty_widgets i s) = audit_log s"
  "prev_env (penalty_widgets i s) = prev_env s"
  "wbgt_raw_c (penalty_widgets i s) = wbgt_raw_c s"
  by (simp_all add: penalty_widgets_def)

lemma apply_adjustments_frozen:
  "wbgt_base_frozen (snd (apply_adjustments s)) = wbgt_base_frozen s"
  "audit_log (snd (apply_adjustments s)) = audit_log s"
  "prev_env (snd (apply_adjustments s)) = prev_env s"
  "wbgt_raw_c (snd (apply_adjustments s)) = wbgt_raw_c s"
  by (simp_all add: apply_adjustments_def Let_def split: option.splits prod.splits)

lemma apply_adjustments_applied:
  "penalties_applied (snd (apply_adjustments s)) = (penalties_applied s \<or> wbgt_base_frozen s \<noteq> None)"
  by (auto simp add: apply_adjustments_def Let_def split: option.splits prod.splits)

lemma block5b_simps:
  "wbgt_base_frozen (snd (block5b i s)) = wbgt_base_frozen s"
  "audit_log (snd (block5b i s)) = audit_log s"
  "prev_env (snd (block5b i s)) = prev_env s"
  "wbgt_raw_c (snd (block5b i s)) = wbgt_raw_c s"
  "penalties_applied (snd (block5b i s)) =
     (penalties_applied s \<or> (in_apply i \<and> wbgt_base_frozen s \<noteq> None))"
  by (simp_all add: block5b_def apply_adjustments_frozen apply_adjustments_applied)

lemma block6_simps:
  "wbgt_base_frozen (block6 i s) = wbgt_base_frozen s"
  "penalties_applied (block6 i s) = penalties_applied s"
  "total_penalty_c (block6 i s) = total_penalty_c s"
  "audit_log (block6 i s) = audit_log s"
  "prev_env (block6 i s) = prev_env s"
  "wbgt_raw_c (block6 i s) = wbgt_raw_c s"
  by (simp_all add: block6_def split: prod.splits)

lemma block7_simps:
  "wbgt_base_frozen (block7 s) = wbgt_base_frozen s"
  "penalties_applied (block7 s) = penalties_applied s"
  "total_penalty_c (block7 s) = total_penalty_c s"
  "audit_log (block7 s) = audit_log s"
  "prev_env (block7 s) = prev_env s"
  "wbgt_raw_c (block7 s) = wbgt_raw_c s"
  by (simp_all add: block7_def split: option.splits)

lemma block8_log_simps:
  "wbgt_base_frozen (block8_log i s) = wbgt_base_frozen s"
  "penalties_applied (block8_log i s) = penalties_applied s"
  "total_penalty_c (block8_log i s) = total_penalty_c s"
  "prev_env (block8_log i s) = prev_env s"
  "wbgt_raw_c (block8_log i s) = wbgt_raw_c s"
  by (simp_all add: block8_log_def split: option.splits)

lemmas tail_simps = block8_log_simps block7_simps block6_simps

lemma cycle_frozen:
  "wbgt_base_frozen (cycle i s) =
     (if prev_env s = Some (sig_of i) \<and> wbgt_base_frozen s \<noteq> None then wbgt_base_frozen s
      else Some (raw_of i))"
  by (simp add: cycle_unfold tail_simps block5b_simps penalty_widgets_simps block5_simps
      input_layer_simps)

lemma cycle_frozen_not_None: "wbgt_base_frozen (cycle i s) \<noteq> None"
  by (auto simp add: cycle_frozen)

lemma cycle_applied:
  "penalties_applied (cycle i s) =
     (in_apply i \<or> (penalties_applied s \<and> prev_env s = Some (sig_of i)))"
  by (auto simp add: cycle_unfold tail_simps block5b_simps penalty_widgets_simps block5_simps
      input_layer_simps)

lemma cycle_prev_env: "prev_env (cycle i s) = Some (sig_of i)"
  by (simp add: cycle_unfold tail_simps block5b_simps penalty_widgets_simps block5_simps
      input_layer_simps)

lemma cycle_raw: "wbgt_raw_c (cycle i s) = Some (raw_of i)"
  by (simp add: cycle_unfold tail_simps block5b_simps penalty_widgets_simps block5_simps
      input_layer_simps)

lemma ex_simps:
  "in_apply ex_apply" "\<not> in_apply ex_change" "\<not> in_apply ex_rerun"
  "sig_of ex_apply = \<lparr> sig_db = 32, sig_rh = 60, sig_gt = 35, sig_ws = 1 \<rparr>"
  "sig_of ex_rerun = \<lparr> sig_db = 32, sig_rh = 60, sig_gt = 35, sig_ws = 1 \<rparr>"
  "sig_of ex_change = \<lparr> sig_db = 33, sig_rh = 60, sig_gt = 35, sig_ws = 1 \<rparr>"
  "raw_of ex_apply = calc_wbgt_raw_c 32 60 35 1"
  "raw_of ex_rerun = calc_wbgt_raw_c 32 60 35 1"
  "raw_of ex_change = calc_wbgt_raw_c 33 60 35 1"
  by (simp_all add: ex_apply_def ex_change_def ex_rerun_def sig_of_def raw_of_def)

lemma block5_frozen_not_None: "wbgt_base_frozen (block5 s) \<noteq> None"
  by (auto simp add: block5_simps)

lemma apply_adjustments_commit:
  assumes "wbgt_base_frozen s = Some b"
    and "clamped_penalties s = (ppe, encl, rad, ahoc)"
  shows "snd (apply_adjustments s) =
      s\<lparr> total_penalty_c := min (ppe + encl + rad + ahoc) 10,
         wbgt_eff_c := Some (b + min (ppe + encl + rad + ahoc) 10),
         penalties_applied := True \<rparr>"
  using assms by (simp add: apply_adjustments_def Let_def)

lemma cycle_total_apply:
  assumes "in_apply i"
  shows "total_penalty_c (cycle i s) =
      min (min (max (in_pen_clo_c i) 0) 3 + min (max (in_pen_veh_c i) 0) 3
           + min (max (in_pen_rad_c i) 0) 5 + min (max (in_pen_adhoc_c i) 0) 4) 10"
proof -
  let ?t = "penalty_widgets i (block5 (input_layer i s))"
  obtain b where b: "wbgt_base_frozen ?t = Some b"
    using block5_frozen_not_None [of "input_layer i s"]
    by (auto simp add: penalty_widgets_simps)
  have c: "clamped_penalties ?t =
      (min (max (in_pen_clo_c i) 0) 3, min (max (in_pen_veh_c i) 0) 3,
       min (max (in_pen_rad_c i) 0) 5, min (max (in_pen_adhoc_c i) 0) 4)"
    by (simp add: clamped_penalties_def penalty_widgets_def)
  show ?thesis
    using assms by (simp add: cycle_unfold tail_simps block5b_def apply_adjustments_commit [OF b c])
qed

lemma cycle_total_no_apply:
  assumes "\<not> in_apply i"
  shows "total_penalty_c (cycle i s) =
      (if prev_env s = Some (sig_of i) then total_penalty_c s else 0)"
  using assms
  by (simp add: cycle_unfold tail_simps block5b_def penalty_widgets_simps block5_simps
      input_layer_simps)

lemma block8_log_audit:
  "audit_log (block8_log i s) = audit_log s
   \<or> (\<exists>e. audit_log (block8_log i s) = audit_log s @ [e])"
  by (simp add: block8_log_def audit_append_def split: option.splits)

lemma cycle_audit_log:
  "audit_log (cycle i s) = audit_log s \<or> (\<exists>e. audit_log (cycle i s) = audit_log s @ [e])"
proof -
  let ?t = "block7 (block6 i (snd (block5b i (penalty_widgets i (block5 (input_layer i s))))))"
  have "audit_log ?t = audit_log s"
    by (simp add: block7_simps block6_simps block5b_simps penalty_widgets_simps block5_simps
        input_layer_simps)
  with block8_log_audit [of i ?t] show ?thesis
    by (simp add: cycle_unfold)
qed

lemma calc_f_v_bounds: "0 < calc_f_v ws \<and> calc_f_v ws \<le> 1"
proof -
  define d where "d = 1 + 0.4 * sqrt (max ws 0.1)"
  have "0 \<le> sqrt (max ws 0.1)" by simp
  then have d1: "1 \<le> d" by (simp add: d_def)
  then have "0 < 1 / d \<and> 1 / d \<le> 1" by simp
  then show ?thesis
    by (simp only: calc_f_v_def Let_def d_def)
qed

lemma apply_adjustments_total:
  "0 \<le> total_penalty_c s \<and> total_penalty_c s \<le> 10 \<Longrightarrow>
   0 \<le> total_penalty_c (snd (apply_adjustments s))
   \<and> total_penalty_c (snd (apply_adjustments s)) \<le> 10"
  by (simp add: apply_adjustments_def clamped_penalties_def Let_def split: option.splits)

lemma block5b_total:
  "0 \<le> total_penalty_c s \<and> total_penalty_c s \<le> 10 \<Longrightarrow>
   0 \<le> total_penalty_c (snd (block5b i s)) \<and> total_penalty_c (snd (block5b i s)) \<le> 10"
  using apply_adjustments_total [of s] by (simp add: block5b_def)

lemma cycle_total:
  assumes "0 \<le> total_penalty_c s \<and> total_penalty_c s \<le> 10"
  shows "0 \<le> total_penalty_c (cycle i s) \<and> total_penalty_c (cycle i s) \<le> 10"
proof -
  let ?t = "penalty_widgets i (block5 (input_layer i s))"
  have "0 \<le> total_penalty_c ?t \<and> total_penalty_c ?t \<le> 10"
    using assms by (simp add: penalty_widgets_simps block5_simps input_layer_simps)
  from block5b_total [OF this, of i] show ?thesis
    by (simp add: cycle_unfold tail_simps)
qed

lemma run_session_total:
  "0 \<le> total_penalty_c s \<and> total_penalty_c s \<le> 10 \<Longrightarrow>
   0 \<le> total_penalty_c (run_session hist s) \<and> total_penalty_c (run_session hist s) \<le> 10"
proof (induction hist arbitrary: s)
  case Nil
  then show ?case by simp
next
  case (Cons i hist)
  from Cons.IH [OF cycle_total [OF Cons.prems]] show ?case by simp
qed

text \<open>The formatting on values of the kind the log holds.\<close>

lemma fmt_f_examples:
  "fmt_f 1 28.94 = ''28.9''" "fmt_f 0 60 = ''60''" "fmt_f 1 0.25 = ''0.2''"
  "fmt_f 0 3.5 = ''4''" "fmt_f 1 10 = ''10.0''"
  by (simp_all add: fmt_f_def round_half_even_def Let_def nat_digits.simps digit_char_def)

subsection \<open>Export gating\<close>

text \<open>
  Claim C1, as the code has it. After every cycle the export control is enabled exactly
  when \<open>penalties_applied\<close> is true at the end of that cycle: the current value of the
  flag, whatever the log holds. The flag is true at the end of a cycle exactly when the
  apply button was pressed in that cycle, or it was true before and the environment
  signature is unchanged.
\<close>

theorem C1_export_tracks_current_flag:
  "can_export (cycle_ui i s) = penalties_applied (cycle i s)
   \<and> penalties_applied (cycle i s) =
       (in_apply i \<or> (penalties_applied s \<and> prev_env s = Some (env_now (input_layer i s))))
   \<and> can_export (cycle_ui i (s\<lparr> audit_log := lg \<rparr>)) = can_export (cycle_ui i s)"
  by (simp add: cycle_ui_unfold cycle_applied input_layer_simps)

text \<open>
  Claim C1 as stated fails: the first run applies penalties and export is enabled; the
  second run changes the dry-bulb, and export is disabled again although the flag has
  been true during the session.
\<close>

theorem C1_counterexample:
  "penalties_applied (run_session [ex_apply] session_init)
   \<and> can_export (cycle_ui ex_apply session_init)
   \<and> \<not> can_export (cycle_ui ex_change (run_session [ex_apply] session_init))"
  by (simp add: cycle_ui_unfold cycle_applied cycle_prev_env ex_simps)

subsection \<open>The baseline freeze\<close>

text \<open>
  Claim C2. In a state that holds a frozen baseline, when the stored signature differs
  from the current inputs in one of the four fields, the reset of lines 410--415 clears
  the frozen baseline and the applied flag and zeroes the total penalty; block 5 then
  adopts the raw WBGT it has just computed as the frozen baseline; and the frozen
  baseline at the end of the cycle is that value, so it is not absent. When the apply
  button is not pressed in that run, the flag is still clear and the total still zero
  at the end of the cycle.
\<close>

theorem C2_signature_change_rearms:
  assumes "wbgt_base_frozen s = Some b"
    and "prev_env s = Some e"
    and "sig_db e \<noteq> in_db_c i \<or> sig_rh e \<noteq> in_rh_pct i
         \<or> sig_ws e \<noteq> in_ws_ms i \<or> sig_gt e \<noteq> in_gt_c i"
  shows "wbgt_base_frozen (block5_reset (input_layer i s)) = None
    \<and> \<not> penalties_applied (block5_reset (input_layer i s))
    \<and> total_penalty_c (block5_reset (input_layer i s)) = 0
    \<and> wbgt_raw_c (block5 (input_layer i s))
        = Some (calc_wbgt_raw_c (in_db_c i) (in_rh_pct i) (in_gt_c i) (in_ws_ms i))
    \<and> wbgt_base_frozen (block5 (input_layer i s)) = wbgt_raw_c (block5 (input_layer i s))
    \<and> \<not> penalties_applied (block5 (input_layer i s))
    \<and> total_penalty_c (block5 (input_layer i s)) = 0
    \<and> wbgt_base_frozen (cycle i s)
        = Some (calc_wbgt_raw_c (in_db_c i) (in_rh_pct i) (in_gt_c i) (in_ws_ms i))
    \<and> (\<not> in_apply i \<longrightarrow> \<not> penalties_applied (cycle i s) \<and> total_penalty_c (cycle i s) = 0)"
proof -
  have ne: "e \<noteq> sig_of i"
    using assms(3) by (auto simp add: sig_of_def)
  have changed: "prev_env (input_layer i s) \<noteq> Some (env_now (input_layer i s))"
    using assms(2) ne by (simp add: input_layer_simps)
  have r: "wbgt_base_frozen (block5_reset (input_layer i s)) = None
      \<and> \<not> penalties_applied (block5_reset (input_layer i s))
      \<and> total_penalty_c (block5_reset (input_layer i s)) = 0"
    using changed by (simp add: block5_reset_def Let_def)
  have b5: "wbgt_raw_c (block5 (input_layer i s))
        = Some (calc_wbgt_raw_c (in_db_c i) (in_rh_pct i) (in_gt_c i) (in_ws_ms i))
    \<and> wbgt_base_frozen (block5 (input_layer i s)) = wbgt_raw_c (block5 (input_layer i s))
    \<and> \<not> penalties_applied (block5 (input_layer i s))
    \<and> total_penalty_c (block5 (input_layer i s)) = 0"
    using changed by (simp add: block5_simps input_layer_simps raw_of_def)
  have c: "wbgt_base_frozen (cycle i s)
        = Some (calc_wbgt_raw_c (in_db_c i) (in_rh_pct i) (in_gt_c i) (in_ws_ms i))"
    using assms(2) ne by (simp add: cycle_frozen raw_of_def)
  have d: "\<not> in_apply i \<longrightarrow> \<not> penalties_applied (cycle i s) \<and> total_penalty_c (cycle i s) = 0"
    using assms(2) ne by (simp add: cycle_applied cycle_total_no_apply)
  from r b5 c d show ?thesis by blast
qed

theorem C2_witness:
  "wbgt_base_frozen (cycle ex_apply session_init) = Some (calc_wbgt_raw_c 32 60 35 1)
   \<and> prev_env (cycle ex_apply session_init)
       = Some \<lparr> sig_db = 32, sig_rh = 60, sig_gt = 35, sig_ws = 1 \<rparr>
   \<and> penalties_applied (cycle ex_apply session_init)
   \<and> total_penalty_c (cycle ex_apply session_init) = 10
   \<and> wbgt_base_frozen (block5_reset (input_layer ex_change (cycle ex_apply session_init))) = None
   \<and> \<not> penalties_applied (block5 (input_layer ex_change (cycle ex_apply session_init)))
   \<and> total_penalty_c (block5 (input_layer ex_change (cycle ex_apply session_init))) = 0
   \<and> wbgt_base_frozen (cycle ex_change (cycle ex_apply session_init))
       = Some (calc_wbgt_raw_c 33 60 35 1)
   \<and> \<not> penalties_applied (cycle ex_change (cycle ex_apply session_init))
   \<and> total_penalty_c (cycle ex_change (cycle ex_apply session_init)) = 0"
proof -
  let ?s = "cycle ex_apply session_init"
  let ?e = "\<lparr> sig_db = 32, sig_rh = 60, sig_gt = 35, sig_ws = 1 \<rparr> :: env_sig"
  have h1: "wbgt_base_frozen ?s = Some (calc_wbgt_raw_c 32 60 35 1)"
    by (simp add: cycle_frozen session_init_def ex_simps)
  have h2: "prev_env ?s = Some ?e"
    by (simp add: cycle_prev_env ex_simps)
  have h3: "sig_db ?e \<noteq> in_db_c ex_change \<or> sig_rh ?e \<noteq> in_rh_pct ex_change
         \<or> sig_ws ?e \<noteq> in_ws_ms ex_change \<or> sig_gt ?e \<noteq> in_gt_c ex_change"
    by (simp add: ex_change_def ex_apply_def)
  have h4: "penalties_applied ?s"
    by (simp add: cycle_applied ex_simps)
  have h5: "total_penalty_c ?s = 10"
    by (simp add: cycle_total_apply ex_simps) (simp add: ex_apply_def)
  have h6: "\<not> in_apply ex_change"
    by (simp add: ex_simps)
  from C2_signature_change_rearms [OF h1 h2 h3] h1 h2 h4 h5 h6 show ?thesis
    by (simp add: ex_change_def ex_apply_def)
qed

text \<open>
  Claim C3. In a state that holds a frozen baseline, a cycle whose signature equals the
  stored one leaves the frozen baseline as it was, while the raw WBGT is recomputed; the
  stored signature is unchanged, so the same holds for every further such cycle.
\<close>

theorem C3_unchanged_signature_keeps_frozen:
  assumes "wbgt_base_frozen s = Some b"
    and "prev_env s = Some (env_now (input_layer i s))"
  shows "wbgt_base_frozen (cycle i s) = Some b
    \<and> wbgt_raw_c (cycle i s)
        = Some (calc_wbgt_raw_c (in_db_c i) (in_rh_pct i) (in_gt_c i) (in_ws_ms i))
    \<and> prev_env (cycle i s) = prev_env s"
  using assms by (simp add: cycle_frozen cycle_raw cycle_prev_env input_layer_simps raw_of_def)

theorem C3_witness:
  "wbgt_base_frozen (cycle ex_apply session_init) = Some (calc_wbgt_raw_c 32 60 35 1)
   \<and> prev_env (cycle ex_apply session_init)
       = Some (env_now (input_layer ex_rerun (cycle ex_apply session_init)))
   \<and> wbgt_base_frozen (cycle ex_rerun (cycle ex_apply session_init))
       = Some (calc_wbgt_raw_c 32 60 35 1)"
proof -
  let ?s = "cycle ex_apply session_init"
  have h1: "wbgt_base_frozen ?s = Some (calc_wbgt_raw_c 32 60 35 1)"
    by (simp add: cycle_frozen session_init_def ex_simps)
  have h2: "prev_env ?s = Some (env_now (input_layer ex_rerun ?s))"
    by (simp add: cycle_prev_env input_layer_simps ex_simps)
  from C3_unchanged_signature_keeps_frozen [OF h1 h2] h1 h2 show ?thesis
    by simp
qed

subsection \<open>Penalties and the apply handler\<close>

text \<open>
  Claim C4. The handler clamps the four staged penalties one by one, PPE and enclosure
  to \<open>[0,3]\<close>, radiant to \<open>[0,5]\<close>, ad hoc to \<open>[0,4]\<close>, so a staged value below 0 or
  above its ceiling is replaced by that boundary; the total it commits is the sum of the
  clamped values capped at 10, which is exactly 10 when that sum exceeds 10, and the
  effective WBGT is the frozen baseline plus that total. In a cycle where the button is
  pressed the committed total is that function of the four penalty inputs.
\<close>

theorem C4_clamp_then_cap:
  assumes "clamped_penalties s = (ppe, encl, rad, ahoc)"
  shows "ppe = min (max (pen_clo_c s) 0) 3 \<and> encl = min (max (pen_veh_c s) 0) 3
    \<and> rad = min (max (pen_rad_c s) 0) 5 \<and> ahoc = min (max (pen_adhoc_c s) 0) 4
    \<and> (pen_clo_c s < 0 \<longrightarrow> ppe = 0) \<and> (3 < pen_clo_c s \<longrightarrow> ppe = 3)
    \<and> (pen_veh_c s < 0 \<longrightarrow> encl = 0) \<and> (3 < pen_veh_c s \<longrightarrow> encl = 3)
    \<and> (pen_rad_c s < 0 \<longrightarrow> rad = 0) \<and> (5 < pen_rad_c s \<longrightarrow> rad = 5)
    \<and> (pen_adhoc_c s < 0 \<longrightarrow> ahoc = 0) \<and> (4 < pen_adhoc_c s \<longrightarrow> ahoc = 4)
    \<and> (wbgt_base_frozen s = Some b \<longrightarrow>
          total_penalty_c (snd (apply_adjustments s)) = min (ppe + encl + rad + ahoc) 10
        \<and> (10 < ppe + encl + rad + ahoc \<longrightarrow> total_penalty_c (snd (apply_adjustments s)) = 10)
        \<and> wbgt_eff_c (snd (apply_adjustments s)) = Some (b + min (ppe + encl + rad + ahoc) 10))
    \<and> (in_apply i \<longrightarrow>
          total_penalty_c (cycle i s0) =
            min (min (max (in_pen_clo_c i) 0) 3 + min (max (in_pen_veh_c i) 0) 3
                 + min (max (in_pen_rad_c i) 0) 5 + min (max (in_pen_adhoc_c i) 0) 4) 10)"
proof -
  have cl: "ppe = min (max (pen_clo_c s) 0) 3" "encl = min (max (pen_veh_c s) 0) 3"
    "rad = min (max (pen_rad_c s) 0) 5" "ahoc = min (max (pen_adhoc_c s) 0) 4"
    using assms by (simp_all add: clamped_penalties_def)
  have bd: "(pen_clo_c s < 0 \<longrightarrow> ppe = 0) \<and> (3 < pen_clo_c s \<longrightarrow> ppe = 3)
    \<and> (pen_veh_c s < 0 \<longrightarrow> encl = 0) \<and> (3 < pen_veh_c s \<longrightarrow> encl = 3)
    \<and> (pen_rad_c s < 0 \<longrightarrow> rad = 0) \<and> (5 < pen_rad_c s \<longrightarrow> rad = 5)
    \<and> (pen_adhoc_c s < 0 \<longrightarrow> ahoc = 0) \<and> (4 < pen_adhoc_c s \<longrightarrow> ahoc = 4)"
    unfolding cl by (simp add: min_def max_def)
  have hd: "wbgt_base_frozen s = Some b \<longrightarrow>
          total_penalty_c (snd (apply_adjustments s)) = min (ppe + encl + rad + ahoc) 10
        \<and> (10 < ppe + encl + rad + ahoc \<longrightarrow> total_penalty_c (snd (apply_adjustments s)) = 10)
        \<and> wbgt_eff_c (snd (apply_adjustments s)) = Some (b + min (ppe + encl + rad + ahoc) 10)"
    using assms by (simp add: apply_adjustments_commit min_def)
  have cy: "in_apply i \<longrightarrow>
          total_penalty_c (cycle i s0) =
            min (min (max (in_pen_clo_c i) 0) 3 + min (max (in_pen_veh_c i) 0) 3
                 + min (max (in_pen_rad_c i) 0) 5 + min (max (in_pen_adhoc_c i) 0) 4) 10"
    using cycle_total_apply [of i s0] by blast
  from cl bd hd cy show ?thesis by blast
qed

theorem C4_witness:
  "clamped_penalties ex_over = (3, 3, 5, 4)
   \<and> total_penalty_c (snd (apply_adjustments ex_over)) = 10
   \<and> wbgt_eff_c (snd (apply_adjustments ex_over)) = Some 38.9
   \<and> clamped_penalties ex_under = (0, 0, 0, 0)
   \<and> total_penalty_c (snd (apply_adjustments ex_under)) = 0
   \<and> total_penalty_c (cycle ex_apply session_init) = 10"
proof -
  have f1: "wbgt_base_frozen ex_over = Some 28.9" by (simp add: ex_over_def)
  have c1: "clamped_penalties ex_over = (3, 3, 5, 4)"
    by (simp add: clamped_penalties_def ex_over_def)
  have f2: "wbgt_base_frozen ex_under = Some 28.9" by (simp add: ex_under_def)
  have c2: "clamped_penalties ex_under = (0, 0, 0, 0)"
    by (simp add: clamped_penalties_def ex_under_def)
  have a: "in_apply ex_apply" by (simp add: ex_apply_def)
  from C4_clamp_then_cap [OF c1, of "28.9" ex_apply session_init]
    C4_clamp_then_cap [OF c2, of "28.9" ex_apply session_init] f1 f2 c1 c2 a
  show ?thesis
    by (simp add: ex_apply_def)
qed

text \<open>
  Claim C6. The handler reports the missing-baseline error exactly when no frozen
  baseline is held, and in that case returns the session as it was: no field changes,
  so neither the total penalty, the effective WBGT, the applied flag nor the log does.
\<close>

theorem C6_apply_fails_iff_no_baseline:
  "(fst (apply_adjustments s) = Some NoFrozenBaseline \<longleftrightarrow> wbgt_base_frozen s = None)
   \<and> (wbgt_base_frozen s = None \<longrightarrow> snd (apply_adjustments s) = s)"
  by (simp add: apply_adjustments_def Let_def split: option.splits prod.splits)

theorem C6_witness:
  "wbgt_base_frozen session_init = None
   \<and> fst (apply_adjustments session_init) = Some NoFrozenBaseline
   \<and> snd (apply_adjustments session_init) = session_init
   \<and> wbgt_base_frozen ex_over \<noteq> None
   \<and> fst (apply_adjustments ex_over) \<noteq> Some NoFrozenBaseline"
proof -
  have n: "wbgt_base_frozen session_init = None" by (simp add: session_init_def)
  have m: "wbgt_base_frozen ex_over \<noteq> None" by (simp add: ex_over_def)
  from C6_apply_fails_iff_no_baseline [of session_init] C6_apply_fails_iff_no_baseline [of ex_over]
    n m show ?thesis by simp
qed

text \<open>
  Claim C9. Whatever the session held, block 5 leaves a frozen baseline (adopting the
  raw WBGT it has just computed when none was held), the penalty widgets keep it, and so
  the handler of the same cycle never reports the missing-baseline error.
\<close>

theorem C9_error_branch_unreachable:
  "wbgt_base_frozen (block5 (input_layer i s)) \<noteq> None
   \<and> wbgt_base_frozen (penalty_widgets i (block5 (input_layer i s))) \<noteq> None
   \<and> (wbgt_base_frozen s' = None \<longrightarrow>
        wbgt_base_frozen (block5_compute s')
          = Some (calc_wbgt_raw_c (db_c s') (rh_pct s') (gt_c s') (ws_ms s')))
   \<and> apply_report (cycle_ui i s) \<noteq> Some NoFrozenBaseline"
proof -
  have a: "wbgt_base_frozen (block5 (input_layer i s)) \<noteq> None"
    by (simp add: block5_simps)
  then have b: "wbgt_base_frozen (penalty_widgets i (block5 (input_layer i s))) \<noteq> None"
    by (simp add: penalty_widgets_simps)
  have c: "wbgt_base_frozen s' = None \<longrightarrow>
        wbgt_base_frozen (block5_compute s')
          = Some (calc_wbgt_raw_c (db_c s') (rh_pct s') (gt_c s') (ws_ms s'))"
    by (simp add: block5_compute_def Let_def)
  have d: "apply_report (cycle_ui i s) \<noteq> Some NoFrozenBaseline"
    using b by (auto simp add: cycle_ui_unfold block5b_def apply_adjustments_def Let_def
        split: option.splits prod.splits)
  from a b c d show ?thesis by blast
qed

theorem C9_witness:
  "wbgt_base_frozen session_init = None
   \<and> wbgt_base_frozen (block5_compute session_init) = Some (calc_wbgt_raw_c 32 60 35 1)
   \<and> wbgt_base_frozen (block5 (input_layer ex_apply session_init)) \<noteq> None
   \<and> apply_report (cycle_ui ex_apply session_init) \<noteq> Some NoFrozenBaseline"
proof -
  have n: "wbgt_base_frozen session_init = None" by (simp add: session_init_def)
  from C9_error_branch_unreachable [of ex_apply session_init session_init] n
  show ?thesis by (simp add: session_init_def)
qed

text \<open>
  Claim C10. After every history of cycles from the fresh session the committed total
  penalty lies in \<open>[0,10]\<close>: the default and the reset write 0, the handler writes a sum
  of four non-negative clamped values capped at 10, and nothing else writes it.
\<close>

theorem C10_total_penalty_bounded:
  "0 \<le> total_penalty_c (run_session hist session_init)
   \<and> total_penalty_c (run_session hist session_init) \<le> 10"
  by (rule run_session_total) (simp add: session_init_def)

subsection \<open>Classification\<close>

text \<open>
  Claim C5. For thresholds \<open>A < B < C\<close> the if-chain classifies by half-open intervals:
  low below \<open>A\<close>, caution on \<open>[A,B)\<close>, high strain on \<open>[B,C)\<close>, withdrawal from \<open>C\<close> up;
  a value equal to \<open>A\<close> is caution and a value equal to \<open>C\<close> is withdrawal.
\<close>

theorem C5_half_open_bands:
  assumes "A < B" and "B < C"
  shows "(classify_band x A B C = band_low \<longleftrightarrow> x < A)
    \<and> (classify_band x A B C = band_caution \<longleftrightarrow> A \<le> x \<and> x < B)
    \<and> (classify_band x A B C = band_high_strain \<longleftrightarrow> B \<le> x \<and> x < C)
    \<and> (classify_band x A B C = band_withdrawal \<longleftrightarrow> C \<le> x)
    \<and> classify_band A A B C = band_caution
    \<and> classify_band C A B C = band_withdrawal"
  using assms
  by (auto simp add: classify_band_def band_low_def band_caution_def band_high_strain_def
      band_withdrawal_def)

theorem C5_witness:
  "(29::real) < 32 \<and> (32::real) < 35
   \<and> classify_band 29 29 32 35 = band_caution
   \<and> classify_band 35 29 32 35 = band_withdrawal
   \<and> classify_band 28.9 29 32 35 = band_low
   \<and> classify_band 32 29 32 35 = band_high_strain"
proof -
  have a: "(29::real) < 32" and b: "(32::real) < 35" by simp_all
  from C5_half_open_bands [OF a b, of 29] C5_half_open_bands [OF a b, of 35]
    C5_half_open_bands [OF a b, of "28.9"] C5_half_open_bands [OF a b, of 32] a b
  show ?thesis by simp
qed

subsection \<open>The audit log\<close>

text \<open>
  Claim C7. Appending an entry equal to the last entry of a non-empty log leaves the log
  as it is; an entry that differs from the last one, or any entry on an empty log, is
  added at the end. The old log is a prefix of the result, for the append and for a
  whole cycle: rows are never removed or reordered.
\<close>

theorem C7_audit_dedup_append:
  "(lg \<noteq> [] \<and> e = last lg \<longrightarrow> audit_append lg e = lg)
   \<and> (lg = [] \<or> e \<noteq> last lg \<longrightarrow> audit_append lg e = lg @ [e])
   \<and> take (length lg) (audit_append lg e) = lg
   \<and> take (length (audit_log s)) (audit_log (cycle i s)) = audit_log s"
proof -
  have "take (length (audit_log s)) (audit_log (cycle i s)) = audit_log s"
    using cycle_audit_log [of i s] by auto
  then show ?thesis
    by (auto simp add: audit_append_def)
qed

theorem C7_witness:
  "audit_append [ex_entry] ex_entry = [ex_entry]
   \<and> audit_append [ex_entry] ex_entry_later = [ex_entry, ex_entry_later]
   \<and> audit_append [] ex_entry = [ex_entry]"
proof -
  have d: "ex_entry_later \<noteq> ex_entry"
    by (simp add: ex_entry_later_def ex_entry_def)
  from C7_audit_dedup_append [of "[ex_entry]" ex_entry]
    C7_audit_dedup_append [of "[ex_entry]" ex_entry_later]
    C7_audit_dedup_append [of "[]" ex_entry] d
  show ?thesis by simp
qed

subsection \<open>The wind-corrected globe temperature\<close>

text \<open>
  Claim C8. The corrected globe temperature is
  \<open>db + (gt - db) * (1 / (1 + 0.4 * sqrt (max ws 0.1)))\<close>; the damping factor lies in
  \<open>(0,1]\<close>, so the result lies between the dry-bulb and the raw globe temperature,
  inclusive. This holds for every wind speed, the non-negative ones among them.
\<close>

theorem C8_gt_adj_between:
  "calc_gt_adj db gt ws = db + (gt - db) * (1 / (1 + 0.4 * sqrt (max ws 0.1)))
   \<and> 0 < calc_f_v ws \<and> calc_f_v ws \<le> 1
   \<and> min db gt \<le> calc_gt_adj db gt ws \<and> calc_gt_adj db gt ws \<le> max db gt"
proof -
  have f: "0 < calc_f_v ws" "calc_f_v ws \<le> 1"
    using calc_f_v_bounds by simp_all
  have form: "calc_gt_adj db gt ws = db + (gt - db) * (1 / (1 + 0.4 * sqrt (max ws 0.1)))"
    by (simp add: calc_gt_adj_def calc_f_v_def Let_def)
  have btw: "min db gt \<le> calc_gt_adj db gt ws \<and> calc_gt_adj db gt ws \<le> max db gt"
  proof -
    define t where "t = (gt - db) * calc_f_v ws"
    have adj: "calc_gt_adj db gt ws = db + t"
      by (simp add: calc_gt_adj_def t_def)
    show ?thesis
    proof (cases "db \<le> gt")
      case True
      then have d: "0 \<le> gt - db" by simp
      have lo: "0 \<le> t"
        unfolding t_def using d f(1) by simp
      have hi: "t \<le> gt - db"
        unfolding t_def using d f(2) by (rule_tac mult_left_le) simp_all
      have "db \<le> db + t" "db + t \<le> gt"
        using lo hi by linarith+
      with True show ?thesis
        by (simp only: adj min_def max_def if_True)
    next
      case False
      then have d: "0 \<le> db - gt" by simp
      have lo: "0 \<le> (db - gt) * calc_f_v ws"
        using d f(1) by simp
      have hi: "(db - gt) * calc_f_v ws \<le> db - gt"
        using d f(2) by (rule_tac mult_left_le) simp_all
      have eq: "t = - ((db - gt) * calc_f_v ws)"
        by (simp add: t_def algebra_simps)
      have "gt \<le> db + t" "db + t \<le> db"
        using lo hi eq by linarith+
      with False show ?thesis
        by (simp only: adj min_def max_def if_False)
    qed
  qed
  from form f btw show ?thesis by blast
qed

end
